theory Spec2Isabelle
  imports Complex_Main "HOL-Library.Word" "HOL-Library.AList"
begin

unbundle bit_operations_syntax

section \<open>The multiCam network controller (pythonController/testNetworkCommands.py)\<close>

text \<open>
  A shallow embedding of \<^verbatim>\<open>MultiCamController\<close>: \<^verbatim>\<open>send_command\<close>,
  \<^verbatim>\<open>_handle_file_download\<close>, \<^verbatim>\<open>send_command_to_all\<close> and
  \<^verbatim>\<open>check_clock_synchronization\<close>.

  Conventions of the model.
  \<^item> Python values are the datatype \<open>pyval\<close>; a Python \<^verbatim>\<open>float\<close> is an exact
    \<open>real\<close> (no rounding, no infinities, no NaN).
  \<^item> Every \<^verbatim>\<open>raise\<close> is a value \<open>Inl e\<close> of a sum type; the
    \<^verbatim>\<open>except Exception\<close> handlers turn it into Python's \<^verbatim>\<open>False\<close>.
  \<^item> What the program reads from outside (the system clock, the peers, the file system,
    the library function \<^verbatim>\<open>json.loads\<close>) is a record \<open>world\<close>; what it changes
    (clock reads, sockets, bytes sent, files written) is a record \<open>state\<close> that every
    operation takes and returns.
  \<^item> A peer delivers finitely many events to \<^verbatim>\<open>recv\<close> and then closes the stream.
  \<^item> \<^verbatim>\<open>print\<close> and the \<^verbatim>\<open>debug\<close> flag only write to the console and are left out,
    apart from the one formatting step that can raise.
\<close>

subsection \<open>Python values\<close>

type_synonym byte = "8 word"
type_synonym bytes = "byte list"

datatype pyval =
    PNone
  | PBool bool
  | PInt int
  | PFloat real
  | PStr string
  | PList "pyval list"
  | PDict "(string \<times> pyval) list"

datatype exn =
    ConnectError | SendError | SocketTimeout | RecvError
  | JSONDecodeError | TypeError | KeyError | ValueError | OverflowError | OSError

text \<open>Truth value of a Python object, as \<^verbatim>\<open>if x:\<close> and \<^verbatim>\<open>x or y\<close> see it.\<close>

fun truthy :: "pyval \<Rightarrow> bool" where
  "truthy PNone = False"
| "truthy (PBool b) = b"
| "truthy (PInt n) = (n \<noteq> 0)"
| "truthy (PFloat r) = (r \<noteq> 0)"
| "truthy (PStr s) = (s \<noteq> [])"
| "truthy (PList xs) = (xs \<noteq> [])"
| "truthy (PDict kvs) = (kvs \<noteq> [])"

fun is_str :: "pyval \<Rightarrow> bool" where
  "is_str (PStr s) = True"
| "is_str v = False"

fun is_dict :: "pyval \<Rightarrow> bool" where
  "is_dict (PDict kvs) = True"
| "is_dict v = False"

text \<open>\<^verbatim>\<open>p in s\<close> on two strings: \<open>p\<close> occurs in \<open>s\<close> as a contiguous piece.\<close>

fun occurs_in :: "string \<Rightarrow> string \<Rightarrow> bool" where
  "occurs_in p [] = (p = [])"
| "occurs_in p (c # cs) = (take (length p) (c # cs) = p \<or> occurs_in p cs)"

text \<open>\<^verbatim>\<open>key in v\<close> for a string key: membership of a dict, a list or a string; a
  \<^verbatim>\<open>TypeError\<close> on the values that are not containers.\<close>

fun py_contains :: "string \<Rightarrow> pyval \<Rightarrow> exn + bool" where
  "py_contains k (PDict kvs) = Inr (k \<in> set (map fst kvs))"
| "py_contains k (PList xs) = Inr (PStr k \<in> set xs)"
| "py_contains k (PStr s) = Inr (occurs_in k s)"
| "py_contains k v = Inl TypeError"

text \<open>\<^verbatim>\<open>v[key]\<close> for a string key: only a dict can be indexed by a string.\<close>

fun py_getitem :: "pyval \<Rightarrow> string \<Rightarrow> exn + pyval" where
  "py_getitem (PDict kvs) k = (case map_of kvs k of None \<Rightarrow> Inl KeyError | Some v \<Rightarrow> Inr v)"
| "py_getitem v k = Inl TypeError"

text \<open>The numbers of Python: \<^verbatim>\<open>int\<close> (with \<^verbatim>\<open>bool\<close> as 0 and 1) and \<^verbatim>\<open>float\<close>.\<close>

datatype pynum = NInt int | NFloat real

fun to_num :: "pyval \<Rightarrow> pynum option" where
  "to_num (PInt n) = Some (NInt n)"
| "to_num (PBool b) = Some (NInt (if b then 1 else 0))"
| "to_num (PFloat r) = Some (NFloat r)"
| "to_num v = None"

fun num_val :: "pynum \<Rightarrow> real" where
  "num_val (NInt n) = of_int n"
| "num_val (NFloat r) = r"

text \<open>An \<^verbatim>\<open>int\<close> too large for a \<^verbatim>\<open>float\<close>: converting it raises
  \<^verbatim>\<open>OverflowError\<close>.\<close>

definition float_overflow :: "int \<Rightarrow> bool" where
  "float_overflow n = (2 ^ 1024 - 2 ^ 970 \<le> \<bar>n\<bar>)"

subsection \<open>The world and the state\<close>

record message =
  m_command :: string
  m_timestamp :: real
  m_deviceId :: string
  m_fileId :: "string option"

text \<open>What one call of \<^verbatim>\<open>sock.recv\<close> meets: bytes that have arrived, a
  \<^verbatim>\<open>socket.timeout\<close>, or another socket error. The end of the list is the peer closing
  the connection, where \<^verbatim>\<open>recv\<close> returns \<^verbatim>\<open>b""\<close>.\<close>

datatype recv_event = Data bytes | Timeout | Fault

record peer =
  accepts :: bool
  takes :: "message \<Rightarrow> bool"
  reply :: "message \<Rightarrow> recv_event list"

record world =
  clock :: "nat \<Rightarrow> real"
  peer_at :: "nat \<Rightarrow> string \<Rightarrow> int \<Rightarrow> peer"
  loads :: "bytes \<Rightarrow> pyval option"
  py_str :: "pyval \<Rightarrow> string"
  home :: string
  can_write :: "string \<Rightarrow> bool"

text \<open>
  \<^item> \<open>clock w n\<close> is what the \<open>n\<close>-th call of \<^verbatim>\<open>time.time()\<close> returns;
  \<^item> \<open>peer_at w k ip port\<close> is the peer that the \<open>k\<close>-th socket of the run meets at
    \<open>ip:port\<close>: whether \<^verbatim>\<open>connect\<close> succeeds, whether \<^verbatim>\<open>send\<close> succeeds, and what
    it answers to the request;
  \<^item> \<open>loads w bs\<close> is \<^verbatim>\<open>json.loads(bs.decode('utf-8'))\<close>, \<open>None\<close> where either
    step raises (\<^verbatim>\<open>UnicodeDecodeError\<close>, \<^verbatim>\<open>JSONDecodeError\<close>);
  \<^item> \<open>py_str w v\<close> is the text of a value in an f-string;
  \<^item> \<open>home w\<close> is what \<^verbatim>\<open>~\<close> expands to, and \<open>can_write w p\<close> says that the
    download directory can be made and the file \<open>p\<close> opened for writing.
\<close>

datatype sock_state = Unconnected | Connected | Closed

record state =
  ticks :: nat
  socks :: "sock_state list"
  outbox :: "(string \<times> int \<times> message) list"
  files :: "string \<Rightarrow> bytes option"

definition now :: "world \<Rightarrow> state \<Rightarrow> real \<times> state" where
  "now w s = (clock w (ticks s), s\<lparr>ticks := Suc (ticks s)\<rparr>)"

definition sock_close :: "nat \<Rightarrow> state \<Rightarrow> state" where
  "sock_close k s = s\<lparr>socks := (socks s)[k := Closed]\<rparr>"

subsection \<open>Receiving\<close>

text \<open>\<^verbatim>\<open>sock.recv(n)\<close>: at most \<open>n\<close> of the bytes that arrived first; what is left of
  a longer segment stays for the next call.\<close>

fun recv :: "nat \<Rightarrow> recv_event list \<Rightarrow> (exn + bytes) \<times> recv_event list" where
  "recv n [] = (Inr [], [])"
| "recv n (Timeout # evs) = (Inl SocketTimeout, evs)"
| "recv n (Fault # evs) = (Inl RecvError, evs)"
| "recv n (Data bs # evs) =
     (if bs = [] then recv n evs
      else if length bs \<le> n then (Inr bs, evs)
      else (Inr (take n bs), Data (drop n bs) # evs))"

text \<open>\<^verbatim>\<open>struct.unpack('>I', b)[0]\<close> on four bytes.\<close>

fun unpack_be32 :: "bytes \<Rightarrow> nat" where
  "unpack_be32 [a, b, c, d] =
     unat (push_bit 24 (ucast a) OR push_bit 16 (ucast b) OR push_bit 8 (ucast c) OR ucast d
           :: 32 word)"
| "unpack_be32 bs = 0"

text \<open>How much a stream still holds; every \<^verbatim>\<open>recv\<close> that returns bytes lowers it, which
  is why receiving below always ends.\<close>

fun ev_size :: "recv_event list \<Rightarrow> nat" where
  "ev_size [] = 0"
| "ev_size (Data bs # evs) = Suc (length bs + ev_size evs)"
| "ev_size (e # evs) = Suc (ev_size evs)"

text \<open>Lines 105-119, the \<^verbatim>\<open>LIST_FILES\<close> loop: receive until the bytes so far parse as
  JSON, the peer closes, or a \<^verbatim>\<open>socket.timeout\<close> is raised. Another socket error leaves
  the loop as an exception.\<close>

function recv_json_chunks :: "world \<Rightarrow> bytes \<Rightarrow> recv_event list \<Rightarrow> exn + bytes" where
  "recv_json_chunks w response_data evs =
     (case recv 8192 evs of
        (Inl e, evs') \<Rightarrow> (if e = SocketTimeout then Inr response_data else Inl e)
      | (Inr chunk, evs') \<Rightarrow>
          if chunk = [] then Inr response_data
          else if loads w (response_data @ chunk) \<noteq> None then Inr (response_data @ chunk)
          else recv_json_chunks w (response_data @ chunk) evs')"
  by pat_completeness auto
termination
proof (relation "measure (\<lambda>(w, response_data, evs). ev_size evs)")
  show "wf (measure (\<lambda>(w, response_data, evs). ev_size evs))"
    by simp
next
  fix w :: world and response_data :: bytes and evs x evs' chunk
  assume r: "(x, evs') = recv 8192 evs" "x = Inr chunk" and ne: "chunk \<noteq> []"
  have "recv n es = (Inr c, es') \<Longrightarrow> c \<noteq> [] \<Longrightarrow> ev_size es' < ev_size es" for n es c es'
    by (induction n es rule: recv.induct) (auto split: if_splits)
  with r ne have "ev_size evs' < ev_size evs"
    by metis
  then show "((w, response_data @ chunk, evs'), (w, response_data, evs))
      \<in> measure (\<lambda>(w, response_data, evs). ev_size evs)"
    by simp
qed

text \<open>Lines 100-121: the response bytes of a command other than \<^verbatim>\<open>GET_VIDEO\<close>.\<close>

definition receive_response :: "world \<Rightarrow> string \<Rightarrow> recv_event list \<Rightarrow> exn + bytes" where
  "receive_response w command evs =
     (if command = ''LIST_FILES'' then recv_json_chunks w [] evs
      else fst (recv 4096 evs))"

text \<open>Lines 160-164: read the header until \<open>header_size\<close> bytes are there or the peer
  closes.\<close>

function read_header ::
  "nat \<Rightarrow> bytes \<Rightarrow> recv_event list \<Rightarrow> (exn + bytes) \<times> recv_event list" where
  "read_header header_size header_data evs =
     (if length header_data < header_size then
        (case recv (header_size - length header_data) evs of
           (Inl e, evs') \<Rightarrow> (Inl e, evs')
         | (Inr chunk, evs') \<Rightarrow>
             if chunk = [] then (Inr header_data, evs')
             else read_header header_size (header_data @ chunk) evs')
      else (Inr header_data, evs))"
  by pat_completeness auto
termination
proof (relation "measure (\<lambda>(header_size, header_data, evs). ev_size evs)")
  show "wf (measure (\<lambda>(header_size, header_data, evs). ev_size evs))"
    by simp
next
  fix header_size :: nat and header_data :: bytes and evs x evs' chunk
  assume r: "(x, evs') = recv (header_size - length header_data) evs" "x = Inr chunk"
    and ne: "chunk \<noteq> []"
  have "recv n es = (Inr c, es') \<Longrightarrow> c \<noteq> [] \<Longrightarrow> ev_size es' < ev_size es" for n es c es'
    by (induction n es rule: recv.induct) (auto split: if_splits)
  with r ne have "ev_size evs' < ev_size evs"
    by metis
  then show "((header_size, header_data @ chunk, evs'), (header_size, header_data, evs))
      \<in> measure (\<lambda>(header_size, header_data, evs). ev_size evs)"
    by simp
qed

text \<open>Line 189, \<^verbatim>\<open>min(8192, file_size - bytes_received)\<close>, as the argument of
  \<^verbatim>\<open>recv\<close>: \<^verbatim>\<open>min\<close> keeps 8192 unless the other is smaller, and \<^verbatim>\<open>recv\<close> raises
  \<^verbatim>\<open>TypeError\<close> on a \<^verbatim>\<open>float\<close>.\<close>

fun chunk_size :: "pynum \<Rightarrow> nat \<Rightarrow> nat option" where
  "chunk_size (NInt n) bytes_received =
     Some (if n - int bytes_received < 8192 then nat (n - int bytes_received) else 8192)"
| "chunk_size (NFloat r) bytes_received =
     (if r - real bytes_received < 8192 then None else Some 8192)"

text \<open>Lines 188-194, the payload loop; \<open>written\<close> is what \<^verbatim>\<open>f.write\<close> has put into the
  file so far. The first component is the exception that left the loop, if any.\<close>

function download ::
  "pynum \<Rightarrow> nat \<Rightarrow> bytes \<Rightarrow> recv_event list \<Rightarrow> exn option \<times> bytes" where
  "download file_size bytes_received written evs =
     (if real bytes_received < num_val file_size then
        (case chunk_size file_size bytes_received of
           None \<Rightarrow> (Some TypeError, written)
         | Some n \<Rightarrow>
             (case recv n evs of
                (Inl e, evs') \<Rightarrow> (Some e, written)
              | (Inr chunk, evs') \<Rightarrow>
                  if chunk = [] then (None, written)
                  else download file_size (bytes_received + length chunk) (written @ chunk) evs'))
      else (None, written))"
  by pat_completeness auto
termination
proof (relation "measure (\<lambda>(file_size, bytes_received, written, evs). ev_size evs)")
  show "wf (measure (\<lambda>(file_size, bytes_received, written, evs). ev_size evs))"
    by simp
next
  fix file_size :: pynum and bytes_received :: nat and written :: bytes and evs n x evs' chunk
  assume r: "(x, evs') = recv n evs" "x = Inr chunk" and ne: "chunk \<noteq> []"
  have "recv k es = (Inr c, es') \<Longrightarrow> c \<noteq> [] \<Longrightarrow> ev_size es' < ev_size es" for k es c es'
    by (induction k es rule: recv.induct) (auto split: if_splits)
  with r ne have "ev_size evs' < ev_size evs"
    by metis
  then show "((file_size, bytes_received + length chunk, written @ chunk, evs'),
       (file_size, bytes_received, written, evs))
      \<in> measure (\<lambda>(file_size, bytes_received, written, evs). ev_size evs)"
    by simp
qed

text \<open>The equations of the three receiving functions are unfolded by hand, one iteration at a time.\<close>

declare recv_json_chunks.simps [simp del] read_header.simps [simp del] download.simps [simp del]

subsection \<open>\<^verbatim>\<open>_handle_file_download\<close>\<close>

text \<open>Lines 167-172: parse the header and take \<^verbatim>\<open>fileName\<close> and \<^verbatim>\<open>fileSize\<close> out of
  it. The \<^verbatim>\<open>print\<close> of line 172 formats \<^verbatim>\<open>file_size\<close> with \<^verbatim>\<open>:,\<close> and divides it
  by 1024: it raises on a value that is not a number and on an \<^verbatim>\<open>int\<close> whose quotient
  is too large for a \<^verbatim>\<open>float\<close>.\<close>

definition parse_header :: "world \<Rightarrow> bytes \<Rightarrow> exn + pyval \<times> pynum" where
  "parse_header w header_data =
     (case loads w header_data of
        None \<Rightarrow> Inl JSONDecodeError
      | Some header_info \<Rightarrow>
          (case py_getitem header_info ''fileName'' of
             Inl e \<Rightarrow> Inl e
           | Inr file_name \<Rightarrow>
               (case py_getitem header_info ''fileSize'' of
                  Inl e \<Rightarrow> Inl e
                | Inr file_size \<Rightarrow>
                    (case to_num file_size of
                       None \<Rightarrow> Inl TypeError
                     | Some (NInt n) \<Rightarrow>
                         if 2 ^ 1034 - 2 ^ 980 \<le> \<bar>n\<bar> then Inl OverflowError
                         else Inr (file_name, NInt n)
                     | Some (NFloat r) \<Rightarrow> Inr (file_name, NFloat r)))))"

text \<open>Lines 175-181: \<^verbatim>\<open>~/Downloads/multiCam/<ip with _ for .>_<fileName>\<close>;
  \<^verbatim>\<open>os.path.join\<close> drops the directory in front of an absolute second part.\<close>

definition local_path_of :: "world \<Rightarrow> string \<Rightarrow> pyval \<Rightarrow> string" where
  "local_path_of w device_ip file_name =
     (let downloads_dir = home w @ ''/Downloads/multiCam'';
          device_name = map (\<lambda>c. if c = CHR ''.'' then CHR ''_'' else c) device_ip;
          local_filename =
            device_name @ ''_'' @ (case file_name of PStr n \<Rightarrow> n | v \<Rightarrow> py_str w v)
      in if take 1 local_filename = ''/'' then local_filename
         else downloads_dir @ ''/'' @ local_filename)"

text \<open>Lines 174-202: open the local file, write the payload to it as it arrives, close
  the socket and return the path. The loop ends when \<^verbatim>\<open>file_size\<close> bytes are there
  and also when the peer closes (line 192, \<^verbatim>\<open>break\<close>); nothing compares
  \<^verbatim>\<open>bytes_received\<close> with \<^verbatim>\<open>file_size\<close> after it. A file that was opened keeps
  what was written to it, whatever ends the loop.\<close>

definition save_payload ::
  "world \<Rightarrow> nat \<Rightarrow> recv_event list \<Rightarrow> string \<Rightarrow> pyval \<Rightarrow> pynum \<Rightarrow> state
     \<Rightarrow> (exn + pyval) \<times> state" where
  "save_payload w sock evs device_ip file_name file_size s =
     (let local_path = local_path_of w device_ip file_name in
      if \<not> can_write w local_path then (Inl OSError, s)
      else
        (case download file_size 0 [] evs of
           (Some e, written) \<Rightarrow> (Inl e, s\<lparr>files := (files s)(local_path \<mapsto> written)\<rparr>)
         | (None, written) \<Rightarrow>
             (Inr (PStr local_path),
              sock_close sock (s\<lparr>files := (files s)(local_path \<mapsto> written)\<rparr>))))"

text \<open>Lines 147-202, the body of the \<^verbatim>\<open>try\<close>. The early return of line 153 returns
  \<^verbatim>\<open>False\<close> with the socket as it is.\<close>

definition handle_file_download_try ::
  "world \<Rightarrow> nat \<Rightarrow> recv_event list \<Rightarrow> string \<Rightarrow> string option \<Rightarrow> state
     \<Rightarrow> (exn + pyval) \<times> state" where
  "handle_file_download_try w sock evs device_ip file_id s =
     (case recv 4 evs of
        (Inl e, evs1) \<Rightarrow> (Inl e, s)
      | (Inr header_size_data, evs1) \<Rightarrow>
          if length header_size_data \<noteq> 4 then (Inr (PBool False), s)
          else
            (case read_header (unpack_be32 header_size_data) [] evs1 of
               (Inl e, evs2) \<Rightarrow> (Inl e, s)
             | (Inr header_data, evs2) \<Rightarrow>
                 (case parse_header w header_data of
                    Inl e \<Rightarrow> (Inl e, s)
                  | Inr (file_name, file_size) \<Rightarrow>
                      save_payload w sock evs2 device_ip file_name file_size s)))"

text \<open>Lines 144-207: the \<^verbatim>\<open>except\<close> handler closes the socket and returns
  \<^verbatim>\<open>False\<close>.\<close>

definition handle_file_download ::
  "world \<Rightarrow> nat \<Rightarrow> recv_event list \<Rightarrow> string \<Rightarrow> string option \<Rightarrow> state \<Rightarrow> pyval \<times> state" where
  "handle_file_download w sock evs device_ip file_id s =
     (case handle_file_download_try w sock evs device_ip file_id s of
        (Inl e, s') \<Rightarrow> (PBool False, sock_close sock s')
      | (Inr v, s') \<Rightarrow> (v, s'))"

subsection \<open>\<^verbatim>\<open>send_command\<close>\<close>

text \<open>Lines 69-76: the request. \<^verbatim>\<open>timestamp or time.time()\<close> reads the clock when the
  timestamp is absent or zero; \<^verbatim>\<open>if file_id:\<close> leaves an absent or empty id out.\<close>

definition build_message ::
  "world \<Rightarrow> string \<Rightarrow> real option \<Rightarrow> string option \<Rightarrow> state \<Rightarrow> message \<times> state" where
  "build_message w command timestamp file_id s =
     (case (case timestamp of
              Some t \<Rightarrow> if t \<noteq> 0 then (t, s) else now w s
            | None \<Rightarrow> now w s) of
        (ts, s') \<Rightarrow>
          (\<lparr>m_command = command, m_timestamp = ts, m_deviceId = ''controller'',
            m_fileId = (case file_id of
                          Some f \<Rightarrow> if f \<noteq> [] then Some f else None
                        | None \<Rightarrow> None)\<rparr>, s'))"

text \<open>Lines 123-138: what is made of the response bytes. Nothing received is the value
  \<^verbatim>\<open>True\<close>, after closing the socket; the other returns leave the socket as it is.\<close>

definition interpret_response ::
  "world \<Rightarrow> string \<Rightarrow> nat \<Rightarrow> bytes \<Rightarrow> state \<Rightarrow> (exn + pyval) \<times> state" where
  "interpret_response w command sock response_data s =
     (if response_data \<noteq> [] then
        (case loads w response_data of
           None \<Rightarrow> (Inl JSONDecodeError, s)
         | Some response_json \<Rightarrow>
             if command = ''STOP_RECORDING'' then
               (case py_contains ''fileId'' response_json of
                  Inl e \<Rightarrow> (Inl e, s)
                | Inr False \<Rightarrow> (Inr response_json, s)
                | Inr True \<Rightarrow>
                    (case py_getitem response_json ''fileId'' of
                       Inl e \<Rightarrow> (Inl e, s)
                     | Inr v \<Rightarrow> if truthy v then (Inr v, s) else (Inr response_json, s)))
             else (Inr response_json, s))
      else (Inr (PBool True), sock_close sock s))"

text \<open>Lines 68-138, the body of the \<^verbatim>\<open>try\<close>.\<close>

definition send_command_try ::
  "world \<Rightarrow> string \<Rightarrow> int \<Rightarrow> string \<Rightarrow> real option \<Rightarrow> string option \<Rightarrow> state
     \<Rightarrow> (exn + pyval) \<times> state" where
  "send_command_try w device_ip device_port command timestamp file_id s =
     (case build_message w command timestamp file_id s of
        (msg, s1) \<Rightarrow>
          (let sock = length (socks s1);
               s2 = s1\<lparr>socks := socks s1 @ [Unconnected]\<rparr>;
               p = peer_at w sock device_ip device_port
           in if \<not> accepts p then (Inl ConnectError, s2)
              else
                (let s3 = s2\<lparr>socks := (socks s2)[sock := Connected]\<rparr> in
                 if \<not> takes p msg then (Inl SendError, s3)
                 else
                   (let s4 = s3\<lparr>outbox := outbox s3 @ [(device_ip, device_port, msg)]\<rparr>;
                        evs = reply p msg
                    in if command = ''GET_VIDEO'' then
                         (case handle_file_download w sock evs device_ip file_id s4 of
                            (v, s5) \<Rightarrow> (Inr v, s5))
                       else
                         (case receive_response w command evs of
                            Inl e \<Rightarrow> (Inl e, s4)
                          | Inr response_data \<Rightarrow>
                              interpret_response w command sock response_data s4)))))"

text \<open>Lines 65-142: \<^verbatim>\<open>except Exception\<close> returns \<^verbatim>\<open>False\<close>.\<close>

definition send_command ::
  "world \<Rightarrow> string \<Rightarrow> int \<Rightarrow> string \<Rightarrow> real option \<Rightarrow> string option \<Rightarrow> state
     \<Rightarrow> pyval \<times> state" where
  "send_command w device_ip device_port command timestamp file_id s =
     (case send_command_try w device_ip device_port command timestamp file_id s of
        (Inl e, s') \<Rightarrow> (PBool False, s')
      | (Inr v, s') \<Rightarrow> (v, s'))"

subsection \<open>\<^verbatim>\<open>send_command_to_all\<close>\<close>

record device =
  ip :: string
  port :: int

text \<open>\<^verbatim>\<open>discovered_devices\<close> and \<^verbatim>\<open>results\<close> are dicts: lists of pairs with no key
  twice, in insertion order, written with \<open>AList.update\<close>.

  Lines 229-243: one thread for each device runs \<^verbatim>\<open>send_and_store_result\<close>, and all are
  joined. Each thread writes the one key of its own device; the model runs them one after
  the other in the order they are started. Which peer a link meets and what the clock
  reads are given by the world for each socket and each reading in turn, and the theorems
  below hold for every world.\<close>

definition send_and_store_result ::
  "world \<Rightarrow> string \<Rightarrow> real \<Rightarrow> string \<Rightarrow> string \<Rightarrow> int
     \<Rightarrow> (string \<times> pyval) list \<times> state \<Rightarrow> (string \<times> pyval) list \<times> state" where
  "send_and_store_result w command sync_timestamp device_name device_ip device_port rs =
     (case rs of (results, s) \<Rightarrow>
        (case send_command w device_ip device_port command (Some sync_timestamp) None s of
           (result, s') \<Rightarrow> (AList.update device_name result results, s')))"

fun run_threads ::
  "world \<Rightarrow> string \<Rightarrow> real \<Rightarrow> (string \<times> device) list
     \<Rightarrow> (string \<times> pyval) list \<times> state \<Rightarrow> (string \<times> pyval) list \<times> state" where
  "run_threads w command sync_timestamp [] rs = rs"
| "run_threads w command sync_timestamp ((name, dev) # rest) rs =
     run_threads w command sync_timestamp rest
       (send_and_store_result w command sync_timestamp name (ip dev) (port dev) rs)"

text \<open>Lines 215-223: the timestamp of the broadcast. \<^verbatim>\<open>START_RECORDING\<close> without a
  timestamp gets the clock plus \<^verbatim>\<open>sync_delay\<close>; everything else
  \<^verbatim>\<open>timestamp or time.time()\<close>.\<close>

definition sync_timestamp_of ::
  "world \<Rightarrow> string \<Rightarrow> real option \<Rightarrow> real \<Rightarrow> state \<Rightarrow> real \<times> state" where
  "sync_timestamp_of w command timestamp sync_delay s =
     (if command = ''START_RECORDING'' \<and> timestamp = None then
        (case now w s of (t, s') \<Rightarrow> (t + sync_delay, s'))
      else
        (case timestamp of
           Some t \<Rightarrow> if t \<noteq> 0 then (t, s) else now w s
         | None \<Rightarrow> now w s))"

text \<open>Lines 209-257. The result is \<open>None\<close> for Python's \<^verbatim>\<open>None\<close> (no device known) and
  the returned dict otherwise: \<^verbatim>\<open>results\<close>, or for \<^verbatim>\<open>STOP_RECORDING\<close> the dict
  \<^verbatim>\<open>file_ids\<close> of its entries whose value is a \<^verbatim>\<open>str\<close>.\<close>

definition send_command_to_all ::
  "world \<Rightarrow> (string \<times> device) list \<Rightarrow> string \<Rightarrow> real option \<Rightarrow> real \<Rightarrow> state
     \<Rightarrow> (string \<times> pyval) list option \<times> state" where
  "send_command_to_all w discovered_devices command timestamp sync_delay s =
     (if discovered_devices = [] then (None, s)
      else
        (case sync_timestamp_of w command timestamp sync_delay s of
           (sync_timestamp, s1) \<Rightarrow>
             (case run_threads w command sync_timestamp discovered_devices ([], s1) of
                (results, s2) \<Rightarrow>
                  if command = ''STOP_RECORDING'' then
                    (Some (filter (\<lambda>(name, result). is_str result) results), s2)
                  else (Some results, s2))))"

subsection \<open>\<^verbatim>\<open>check_clock_synchronization\<close>\<close>

text \<open>One entry of \<^verbatim>\<open>results\<close>: the dict with \<^verbatim>\<open>'status': 'success'\<close> and its three
  numbers, \<^verbatim>\<open>{'status': 'failed'}\<close>, or the dict with \<^verbatim>\<open>'status': 'error'\<close>.\<close>

datatype probe =
    Success (device_time: real) (round_trip_ms: real) (time_diff_ms: real)
  | Failed
  | Error

text \<open>The left operand of \<^verbatim>\<open>device_timestamp + (round_trip_time / 2)\<close>: the sum with a
  \<^verbatim>\<open>float\<close> raises \<^verbatim>\<open>TypeError\<close> unless it is a number, and \<^verbatim>\<open>OverflowError\<close> on
  an \<^verbatim>\<open>int\<close> too large for a \<^verbatim>\<open>float\<close>.\<close>

definition as_float :: "pyval \<Rightarrow> exn + real" where
  "as_float v =
     (case to_num v of
        None \<Rightarrow> Inl TypeError
      | Some (NInt n) \<Rightarrow> if float_overflow n then Inl OverflowError else Inr (of_int n)
      | Some (NFloat r) \<Rightarrow> Inr r)"

text \<open>Lines 457-481, the body of the first loop for one device.\<close>

definition probe_device :: "world \<Rightarrow> device \<Rightarrow> state \<Rightarrow> probe \<times> state" where
  "probe_device w dev s =
     (case now w s of (send_time, s1) \<Rightarrow>
        (case send_command w (ip dev) (port dev) ''DEVICE_STATUS'' (Some send_time) None s1 of
           (response, s2) \<Rightarrow>
             (case now w s2 of (receive_time, s3) \<Rightarrow>
                if is_dict response \<and> py_contains ''timestamp'' response = Inr True then
                  (case py_getitem response ''timestamp'' of
                     Inl e \<Rightarrow> (Error, s3)
                   | Inr device_timestamp \<Rightarrow>
                       (case as_float device_timestamp of
                          Inl e \<Rightarrow> (Error, s3)
                        | Inr td \<Rightarrow>
                            (let round_trip_time = receive_time - send_time;
                                 estimated_device_time = td + (round_trip_time / 2);
                                 time_difference = estimated_device_time - receive_time
                             in (Success td (round_trip_time * 1000) (time_difference * 1000),
                                 s3))))
                else (Failed, s3))))"






subsection \<open>Notions of the claims\<close>


text \<open>What the device link of \<open>dev\<close> returns in a broadcast, when the links of the devices
  \<open>pre\<close> have run before it: the value that its thread stores under the device's name.\<close>

definition link_result ::
  "world \<Rightarrow> string \<Rightarrow> real option \<Rightarrow> real \<Rightarrow> state \<Rightarrow> (string \<times> device) list \<Rightarrow> device
     \<Rightarrow> pyval" where
  "link_result w command timestamp sync_delay s pre dev =
     (case sync_timestamp_of w command timestamp sync_delay s of
        (sync_timestamp, s1) \<Rightarrow>
          fst (send_command w (ip dev) (port dev) command (Some sync_timestamp) None
                 (snd (run_threads w command sync_timestamp pre ([], s1)))))"

text \<open>The same for the body of the link's \<^verbatim>\<open>try\<close>: \<open>Inl e\<close> when the link raises the
  exception \<open>e\<close>, of whatever kind, and \<open>Inr v\<close> when it returns \<open>v\<close>.\<close>

definition link_outcome ::
  "world \<Rightarrow> string \<Rightarrow> real option \<Rightarrow> real \<Rightarrow> state \<Rightarrow> (string \<times> device) list \<Rightarrow> device
     \<Rightarrow> exn + pyval" where
  "link_outcome w command timestamp sync_delay s pre dev =
     (case sync_timestamp_of w command timestamp sync_delay s of
        (sync_timestamp, s1) \<Rightarrow>
          fst (send_command_try w (ip dev) (port dev) command (Some sync_timestamp) None
                 (snd (run_threads w command sync_timestamp pre ([], s1)))))"

section \<open>Concrete runs\<close>

text \<open>The state of a controller that has done nothing yet, and worlds on which the
  operations are evaluated below.\<close>

definition init_state :: state where
  "init_state = \<lparr>ticks = 0, socks = [], outbox = [], files = (\<lambda>p. None)\<rparr>"

text \<open>Every peer accepts the connection and the request and closes without an answer; the
  clock starts at 1000 s and advances one second with each reading.\<close>

definition silent_world :: world where
  "silent_world =
     \<lparr>clock = (\<lambda>n. 1000 + real n),
      peer_at = (\<lambda>k ip port. \<lparr>accepts = True, takes = (\<lambda>m. True), reply = (\<lambda>m. [])\<rparr>),
      loads = (\<lambda>bs. None),
      py_str = (\<lambda>v. []),
      home = ''/home/user'',
      can_write = (\<lambda>p. True)\<rparr>"

text \<open>The bytes of an ASCII text, for requests and answers written as text.\<close>

definition ascii :: "string \<Rightarrow> bytes" where
  "ascii s = map (\<lambda>c. of_nat (of_char c)) s"

text \<open>A peer that accepts the connection and the request and answers with one segment of
  bytes, and a peer that refuses the connection.\<close>

definition answers :: "bytes \<Rightarrow> peer" where
  "answers bs = \<lparr>accepts = True, takes = (\<lambda>m. True), reply = (\<lambda>m. [Data bs])\<rparr>"

definition unreachable :: peer where
  "unreachable = \<lparr>accepts = False, takes = (\<lambda>m. False), reply = (\<lambda>m. [])\<rparr>"

text \<open>A world from a clock, the peers by address, and \<^verbatim>\<open>json.loads\<close> as a table of the
  texts that occur.\<close>

definition mk_world ::
  "(nat \<Rightarrow> real) \<Rightarrow> (string \<Rightarrow> int \<Rightarrow> peer) \<Rightarrow> (bytes \<times> pyval) list \<Rightarrow> world" where
  "mk_world clk peers table =
     \<lparr>clock = clk, peer_at = (\<lambda>k. peers), loads = map_of table, py_str = (\<lambda>v. []),
      home = ''/home/user'', can_write = (\<lambda>p. True)\<rparr>"

definition cam :: "int \<Rightarrow> device" where
  "cam p = \<lparr>ip = ''10.0.0.5'', port = p\<rparr>"



text \<open>A peer whose answer depends on the command of the request.\<close>

definition responds :: "(string \<Rightarrow> bytes) \<Rightarrow> peer" where
  "responds f = \<lparr>accepts = True, takes = (\<lambda>m. True), reply = (\<lambda>m. [Data (f (m_command m))])\<rparr>"

text \<open>Answers of a camera, as the JSON texts it sends.\<close>

definition file_id_answer :: bytes where
  \<open>file_id_answer = ascii ''{"fileId":"abc123"}''\<close>

definition empty_id_answer :: bytes where
  \<open>empty_id_answer = ascii ''{"fileId":""}''\<close>

definition status_answer :: bytes where
  \<open>status_answer = ascii ''{"timestamp":1000.5}''\<close>

text \<open>Three cameras: the one at port 8081 answers \<^verbatim>\<open>STOP_RECORDING\<close> with a file id, the
  one at port 8082 refuses the connection, and the one at port 8083 answers
  \<^verbatim>\<open>STOP_RECORDING\<close> with an empty file id. The clock starts at 1000 s and advances one
  second with each reading.\<close>

definition lab_world :: world where
  "lab_world =
     mk_world (\<lambda>n. 1000 + real n)
       (\<lambda>ip port.
          if port = 8081 then
            responds (\<lambda>c. if c = ''STOP_RECORDING'' then file_id_answer else status_answer)
          else if port = 8083 then
            responds (\<lambda>c. if c = ''STOP_RECORDING'' then empty_id_answer else status_answer)
          else unreachable)
       [(file_id_answer, PDict [(''fileId'', PStr ''abc123'')]),
        (empty_id_answer, PDict [(''fileId'', PStr [])]),
        (status_answer, PDict [(''timestamp'', PFloat 1000.5)])]"

definition lab_devices :: "(string \<times> device) list" where
  "lab_devices = [(''cam1'', cam 8081), (''cam2'', cam 8082), (''cam3'', cam 8083)]"

text \<open>A camera that sends the beginning of a file list in two segments and then closes the
  connection; neither what has arrived after the first segment nor all of it is JSON.\<close>

definition cut_answer_1 :: bytes where
  \<open>cut_answer_1 = ascii ''{"files":[{"fileId":"a1",''\<close>

definition cut_answer_2 :: bytes where
  \<open>cut_answer_2 = ascii ''"fileName":"clip''\<close>

definition cut_world :: world where
  "cut_world =
     mk_world (\<lambda>n. 1000 + real n)
       (\<lambda>ip port. \<lparr>accepts = True, takes = (\<lambda>m. True),
                    reply = (\<lambda>m. map Data [cut_answer_1, cut_answer_2])\<rparr>)
       []"

text \<open>A camera that answers \<^verbatim>\<open>GET_VIDEO\<close> with the length of a header, the header, which
  announces a file of 10 bytes, and a payload: at port 8081 four bytes of payload and then
  the end of the stream, at port 8083 no more than two bytes of the length, at any other
  port all ten bytes.\<close>

definition video_header :: bytes where
  \<open>video_header = ascii ''{"fileName":"clip.mp4","fileSize":10}''\<close>

definition video_world :: world where
  "video_world =
     mk_world (\<lambda>n. 1000 + real n)
       (\<lambda>ip port.
          \<lparr>accepts = True, takes = (\<lambda>m. True),
           reply = (\<lambda>m. if port = 8081
                         then [Data [0, 0, 0, 37], Data video_header, Data [1, 2, 3, 4]]
                         else if port = 8083 then [Data [0, 0]]
                         else [Data [0, 0, 0, 37], Data video_header,
                               Data [1, 2, 3, 4, 5, 6], Data [7, 8, 9, 10]])\<rparr>)
       [(video_header, PDict [(''fileName'', PStr ''clip.mp4''), (''fileSize'', PInt 10)])]"

section \<open>What an operation leaves unchanged\<close>

lemma build_message_frame:
  assumes "build_message w command timestamp file_id s = (msg, s1)"
  shows "socks s1 = socks s" and "outbox s1 = outbox s" and "files s1 = files s"
  using assms by (auto simp add: build_message_def now_def split: option.splits if_splits)

lemma build_message_fst:
  "fst (build_message w command timestamp file_id s) =
     \<lparr>m_command = command,
      m_timestamp = (case timestamp of
                       Some t \<Rightarrow> if t \<noteq> 0 then t else clock w (ticks s)
                     | None \<Rightarrow> clock w (ticks s)),
      m_deviceId = ''controller'',
      m_fileId = (case file_id of Some f \<Rightarrow> if f \<noteq> [] then Some f else None | None \<Rightarrow> None)\<rparr>"
  by (simp add: build_message_def now_def split: option.splits)


lemma sock_close_frame:
  "outbox (sock_close k s) = outbox s" "ticks (sock_close k s) = ticks s"
  "length (socks (sock_close k s)) = length (socks s)" "files (sock_close k s) = files s"
  by (simp_all add: sock_close_def)

lemma interpret_response_frame:
  "outbox (snd (interpret_response w command sock response_data s)) = outbox s"
  "ticks (snd (interpret_response w command sock response_data s)) = ticks s"
  "length (socks (snd (interpret_response w command sock response_data s))) = length (socks s)"
  by (simp_all add: interpret_response_def sock_close_frame
      split: sum.splits option.splits bool.splits)

lemma save_payload_frame:
  "outbox (snd (save_payload w sock evs device_ip file_name file_size s)) = outbox s"
  "ticks (snd (save_payload w sock evs device_ip file_name file_size s)) = ticks s"
  "length (socks (snd (save_payload w sock evs device_ip file_name file_size s))) = length (socks s)"
  by (simp_all add: save_payload_def Let_def sock_close_frame split: prod.splits option.splits)

lemma handle_file_download_try_frame:
  "outbox (snd (handle_file_download_try w sock evs device_ip file_id s)) = outbox s"
  "ticks (snd (handle_file_download_try w sock evs device_ip file_id s)) = ticks s"
  "length (socks (snd (handle_file_download_try w sock evs device_ip file_id s))) = length (socks s)"
  by (simp_all add: handle_file_download_try_def save_payload_frame split: prod.splits sum.splits)

lemma handle_file_download_frame:
  "outbox (snd (handle_file_download w sock evs device_ip file_id s)) = outbox s"
  "ticks (snd (handle_file_download w sock evs device_ip file_id s)) = ticks s"
  "length (socks (snd (handle_file_download w sock evs device_ip file_id s))) = length (socks s)"
  using handle_file_download_try_frame [of w sock evs device_ip file_id s]
  by (auto simp add: handle_file_download_def sock_close_frame split: prod.splits sum.splits)

lemma send_command_snd:
  "snd (send_command w device_ip device_port command timestamp file_id s) =
   snd (send_command_try w device_ip device_port command timestamp file_id s)"
  by (simp add: send_command_def split: prod.splits sum.splits)

lemma send_command_try_frame:
  fixes w :: world and device_ip :: string and device_port :: int and s :: state
  assumes bm: "build_message w command timestamp file_id s = (msg, s1)"
  defines "p \<equiv> peer_at w (length (socks s)) device_ip device_port"
  defines "s' \<equiv> snd (send_command_try w device_ip device_port command timestamp file_id s)"
  shows "outbox s' =
           outbox s @ (if accepts p \<and> takes p msg then [(device_ip, device_port, msg)] else [])"
    and "ticks s' = ticks s1"
    and "length (socks s') = Suc (length (socks s))"
proof -
  note fr = build_message_frame [OF bm]
  have "outbox s' =
          outbox s @ (if accepts p \<and> takes p msg then [(device_ip, device_port, msg)] else [])
    \<and> ticks s' = ticks s1 \<and> length (socks s') = Suc (length (socks s))"
  proof (cases "accepts p")
    case False
    then show ?thesis
      unfolding s'_def p_def send_command_try_def bm using fr by (simp add: Let_def)
  next
    case acc: True
    show ?thesis
    proof (cases "takes p msg")
      case False
      with acc show ?thesis
        unfolding s'_def p_def send_command_try_def bm using fr by (simp add: Let_def)
    next
      case tk: True
      show ?thesis
      proof (cases "command = ''GET_VIDEO''")
        case True
        with acc tk show ?thesis
          unfolding s'_def p_def send_command_try_def bm using fr
          by (simp add: Let_def handle_file_download_frame case_prod_beta)
      next
        case False
        with acc tk show ?thesis
          unfolding s'_def p_def send_command_try_def bm using fr
          by (simp add: Let_def interpret_response_frame split: sum.splits)
      qed
    qed
  qed
  then show "outbox s' =
      outbox s @ (if accepts p \<and> takes p msg then [(device_ip, device_port, msg)] else [])"
    and "ticks s' = ticks s1"
    and "length (socks s') = Suc (length (socks s))"
    by simp_all
qed

text \<open>One call of \<^verbatim>\<open>send_command\<close> sends at most one request, the one it built, makes
  exactly one socket, and reads the clock only to build the request.\<close>

lemma send_command_outbox:
  "outbox (snd (send_command w device_ip device_port command timestamp file_id s)) =
     outbox s @
       (if accepts (peer_at w (length (socks s)) device_ip device_port)
          \<and> takes (peer_at w (length (socks s)) device_ip device_port)
               (fst (build_message w command timestamp file_id s))
        then [(device_ip, device_port, fst (build_message w command timestamp file_id s))]
        else [])"
  using send_command_try_frame(1) [of w command timestamp file_id s
      "fst (build_message w command timestamp file_id s)"
      "snd (build_message w command timestamp file_id s)" device_ip device_port]
  by (simp add: send_command_snd)



section \<open>The tally of the report\<close>





section \<open>Evaluating the concrete runs\<close>

lemmas run_defs =
  probe_device_def now_def send_command_def send_command_try_def build_message_def
  receive_response_def interpret_response_def as_float_def Let_def float_overflow_def
  mk_world_def answers_def unreachable_def ascii_def cam_def init_state_def

section \<open>The threads of a broadcast\<close>

lemma send_and_store_result_eq:
  "send_and_store_result w command t name device_ip device_port (results, s) =
     (AList.update name (fst (send_command w device_ip device_port command (Some t) None s)) results,
      snd (send_command w device_ip device_port command (Some t) None s))"
  by (simp add: send_and_store_result_def case_prod_beta)

lemma run_threads_Cons:
  "run_threads w command t ((name, dev) # rest) (results, s) =
     run_threads w command t rest
       (AList.update name (fst (send_command w (ip dev) (port dev) command (Some t) None s)) results,
        snd (send_command w (ip dev) (port dev) command (Some t) None s))"
  by (simp add: send_and_store_result_eq)

lemma run_threads_append:
  "run_threads w command t (xs @ ys) rs = run_threads w command t ys (run_threads w command t xs rs)"
  by (induction w command t xs rs rule: run_threads.induct) simp_all

declare run_threads.simps(2) [simp del]

lemma run_threads_keys:
  "distinct (map fst devs) \<Longrightarrow> set (map fst devs) \<inter> set (map fst results) = {} \<Longrightarrow>
   map fst (fst (run_threads w command t devs (results, s))) = map fst results @ map fst devs"
proof (induction devs arbitrary: results s)
  case Nil
  then show ?case by simp
next
  case (Cons d devs)
  obtain name dev where d: "d = (name, dev)" by (cases d)
  let ?v = "fst (send_command w (ip dev) (port dev) command (Some t) None s)"
  let ?s = "snd (send_command w (ip dev) (port dev) command (Some t) None s)"
  have fresh: "name \<notin> set (map fst results)"
    using Cons.prems(2) d by auto
  then have keys: "map fst (AList.update name ?v results) = map fst results @ [name]"
    by (simp add: update_keys)
  have "map fst (fst (run_threads w command t devs (AList.update name ?v results, ?s))) =
      map fst (AList.update name ?v results) @ map fst devs"
  proof (rule Cons.IH)
    show "distinct (map fst devs)" using Cons.prems(1) by simp
    show "set (map fst devs) \<inter> set (map fst (AList.update name ?v results)) = {}"
      using Cons.prems d keys by auto
  qed
  then show ?case
    unfolding d run_threads_Cons using keys by simp
qed

lemma run_threads_other:
  "name \<notin> set (map fst devs) \<Longrightarrow>
   map_of (fst (run_threads w command t devs (results, s))) name = map_of results name"
proof (induction devs arbitrary: results s)
  case Nil
  then show ?case by simp
next
  case (Cons d devs)
  obtain n dev where d: "d = (n, dev)" by (cases d)
  with Cons.prems have "n \<noteq> name" and "name \<notin> set (map fst devs)" by auto
  then show ?case
    unfolding d run_threads_Cons by (simp add: Cons.IH update_conv')
qed

lemma run_threads_entry:
  assumes "distinct (map fst (pre @ (name, dev) # post))"
  shows "map_of (fst (run_threads w command t (pre @ (name, dev) # post) (results, s))) name =
     Some (fst (send_command w (ip dev) (port dev) command (Some t) None
                 (snd (run_threads w command t pre (results, s)))))"
proof -
  obtain r1 s1 where p: "run_threads w command t pre (results, s) = (r1, s1)"
    by (cases "run_threads w command t pre (results, s)")
  have "name \<notin> set (map fst post)" using assms by auto
  then show ?thesis
    by (simp add: run_threads_append p run_threads_Cons run_threads_other update_conv')
qed



lemma send_command_to_all_fst:
  assumes "discovered_devices \<noteq> []"
  shows "fst (send_command_to_all w discovered_devices command timestamp sync_delay s) =
     Some (let results =
             fst (run_threads w command
                    (fst (sync_timestamp_of w command timestamp sync_delay s))
                    discovered_devices
                    ([], snd (sync_timestamp_of w command timestamp sync_delay s)))
           in if command = ''STOP_RECORDING''
              then filter (\<lambda>(name, result). is_str result) results
              else results)"
  using assms by (simp add: send_command_to_all_def case_prod_beta Let_def)

lemmas bc_defs =
  send_command_to_all_def sync_timestamp_of_def run_threads_Cons responds_def
  lab_world_def lab_devices_def file_id_answer_def empty_id_answer_def status_answer_def run_defs

lemma map_of_filter_distinct:
  "distinct (map fst xs) \<Longrightarrow>
   map_of (filter (\<lambda>(n, v). P v) xs) k =
     (case map_of xs k of None \<Rightarrow> None | Some v \<Rightarrow> if P v then Some v else None)"
proof (induction xs)
  case Nil
  then show ?case by simp
next
  case (Cons x xs)
  obtain n v where x: "x = (n, v)" by (cases x)
  show ?case
  proof (cases "n = k")
    case True
    then have "k \<notin> fst ` set xs" using Cons.prems x by auto
    then have "k \<notin> fst ` set (filter (\<lambda>(n, v). P v) xs)" by auto
    then have "map_of (filter (\<lambda>(n, v). P v) xs) k = None"
      by (simp add: map_of_eq_None_iff)
    with True x show ?thesis by simp
  next
    case False
    with Cons x show ?thesis by simp
  qed
qed

lemma send_command_unreachable:
  assumes "\<not> accepts (peer_at w (length (socks s)) device_ip device_port)"
  shows "fst (send_command w device_ip device_port command timestamp file_id s) = PBool False"
proof -
  obtain msg s1 where bm: "build_message w command timestamp file_id s = (msg, s1)"
    by (cases "build_message w command timestamp file_id s")
  have "socks s1 = socks s" by (rule build_message_frame(1) [OF bm])
  with assms show ?thesis
    by (simp add: send_command_def send_command_try_def bm Let_def)
qed

lemma broadcast_entry:
  assumes devs: "discovered_devices = pre @ (name, dev) # post"
    and dist: "distinct (map fst discovered_devices)"
  shows "\<exists>r. fst (send_command_to_all w discovered_devices command timestamp sync_delay s) = Some r
     \<and> map_of r name =
        (if command = ''STOP_RECORDING''
            \<and> \<not> is_str (link_result w command timestamp sync_delay s pre dev)
         then None
         else Some (link_result w command timestamp sync_delay s pre dev))"
proof -
  let ?ts = "fst (sync_timestamp_of w command timestamp sync_delay s)"
  let ?s1 = "snd (sync_timestamp_of w command timestamp sync_delay s)"
  let ?results = "fst (run_threads w command ?ts discovered_devices ([], ?s1))"
  have ne: "discovered_devices \<noteq> []" using devs by simp
  have keys: "map fst ?results = map fst discovered_devices"
    using run_threads_keys [of discovered_devices "[]" w command ?ts ?s1] dist by simp
  then have dr: "distinct (map fst ?results)" using dist by simp
  have entry: "map_of ?results name = Some (link_result w command timestamp sync_delay s pre dev)"
    using run_threads_entry [of pre name dev post w command ?ts "[]" ?s1] dist devs
    by (simp add: link_result_def case_prod_beta)
  show ?thesis
    using send_command_to_all_fst [OF ne, of w command timestamp sync_delay s] entry
      map_of_filter_distinct [OF dr, of is_str name]
    by (auto simp add: Let_def)
qed

lemma link_result_outcome:
  "link_result w command timestamp sync_delay s pre dev =
     (case link_outcome w command timestamp sync_delay s pre dev of
        Inl e \<Rightarrow> PBool False
      | Inr v \<Rightarrow> v)"
  by (simp add: link_result_def link_outcome_def send_command_def case_prod_beta
      split: sum.splits)

lemma send_command_stop_response:
  assumes acc: "accepts (peer_at w (length (socks s)) device_ip device_port)"
    and tk: "takes (peer_at w (length (socks s)) device_ip device_port)
               (fst (build_message w ''STOP_RECORDING'' timestamp file_id s))"
    and rc: "fst (recv 4096 (reply (peer_at w (length (socks s)) device_ip device_port)
               (fst (build_message w ''STOP_RECORDING'' timestamp file_id s)))) = Inr data"
    and ne: "data \<noteq> []"
    and js: "loads w data = Some (PDict kvs)"
  shows "fst (send_command w device_ip device_port ''STOP_RECORDING'' timestamp file_id s) =
     (case map_of kvs ''fileId'' of
        Some v \<Rightarrow> if truthy v then v else PDict kvs
      | None \<Rightarrow> PDict kvs)"
proof -
  obtain msg s1 where bm: "build_message w ''STOP_RECORDING'' timestamp file_id s = (msg, s1)"
    by (cases "build_message w ''STOP_RECORDING'' timestamp file_id s")
  have sk: "socks s1 = socks s" by (rule build_message_frame(1) [OF bm])
  have ir: "fst (interpret_response w ''STOP_RECORDING'' sock data st) =
      Inr (case map_of kvs ''fileId'' of
             Some v \<Rightarrow> if truthy v then v else PDict kvs
           | None \<Rightarrow> PDict kvs)" for sock st
  proof (cases "map_of kvs ''fileId''")
    case None
    then have "''fileId'' \<notin> fst ` set kvs"
      by (simp add: map_of_eq_None_iff)
    with None ne js show ?thesis
      by (simp add: interpret_response_def)
  next
    case (Some v)
    then have "''fileId'' \<in> fst ` set kvs"
      using map_of_eq_None_iff [of kvs "''fileId''"] by simp
    with Some ne js show ?thesis
      by (simp add: interpret_response_def)
  qed
  show ?thesis
    using acc tk rc
    by (simp add: send_command_def send_command_try_def bm sk Let_def receive_response_def
        case_prod_beta ir split: sum.splits)
qed




section \<open>Streams that deliver bytes and then end\<close>

text \<open>A stream \<open>map Data chunks\<close> delivers the bytes \<open>concat chunks\<close> in some
  segmentation and is then closed by the peer, with no timeout and no socket error.\<close>

lemma recv_data:
  "\<exists>c rest. recv n (map Data chunks) = (Inr c, map Data rest)
      \<and> c @ concat rest = concat chunks
      \<and> length c \<le> n
      \<and> (0 < n \<longrightarrow> c = [] \<longrightarrow> concat chunks = [])"
proof (induction chunks)
  case Nil
  then show ?case by simp
next
  case (Cons b chunks)
  show ?case
  proof (cases "b = []")
    case True
    with Cons show ?thesis by simp
  next
    case ne: False
    show ?thesis
    proof (cases "length b \<le> n")
      case True
      with ne have "recv n (map Data (b # chunks)) = (Inr b, map Data chunks)" by simp
      with ne True show ?thesis by auto
    next
      case False
      with ne have "recv n (map Data (b # chunks)) = (Inr (take n b), map Data (drop n b # chunks))"
        by simp
      moreover have "take n b @ concat (drop n b # chunks) = concat (b # chunks)"
        by simp
      moreover have "0 < n \<longrightarrow> take n b \<noteq> []"
        using ne by (cases b) auto
      moreover have "length (take n b) \<le> n"
        by simp
      ultimately show ?thesis by blast
    qed
  qed
qed


text \<open>The payload loop never raises on such a stream: it writes the bytes that arrive, up
  to the announced size, and ends without an exception also when fewer have arrived.\<close>

lemma download_data:
  "download (NInt N) bytes_received written (map Data chunks) =
     (None, written @ take (nat (N - int bytes_received)) (concat chunks))"
proof (induction "NInt N" bytes_received written "map Data chunks" arbitrary: chunks
    rule: download.induct)
  case (1 bytes_received written)
  show ?case
  proof (cases "int bytes_received < N")
    case False
    then show ?thesis
      by (simp add: download.simps [of "NInt N" bytes_received written "map Data chunks"])
  next
    case True
    define n where "n = (if N - int bytes_received < 8192 then nat (N - int bytes_received) else 8192)"
    have n: "chunk_size (NInt N) bytes_received = Some n" "0 < n" "n \<le> nat (N - int bytes_received)"
      using True by (auto simp add: n_def)
    obtain c rest where r: "recv n (map Data chunks) = (Inr c, map Data rest)"
      and cat: "c @ concat rest = concat chunks"
      and len: "length c \<le> n"
      and emp: "c = [] \<longrightarrow> concat chunks = []"
      using recv_data [of n chunks] n(2) by auto
    show ?thesis
    proof (cases "c = []")
      case True
      with r emp n \<open>int bytes_received < N\<close> show ?thesis
        by (simp add: download.simps [of "NInt N" bytes_received written "map Data chunks"])
    next
      case False
      have ih: "download (NInt N) (bytes_received + length c) (written @ c) (map Data rest) =
          (None, (written @ c) @ take (nat (N - int (bytes_received + length c))) (concat rest))"
        using "1.hyps" r False n(1) True by simp
      have "take (nat (N - int bytes_received)) (concat chunks) =
          c @ take (nat (N - int bytes_received) - length c) (concat rest)"
        using len n(3) by (simp add: cat [symmetric])
      moreover have "nat (N - int bytes_received) - length c = nat (N - int (bytes_received + length c))"
        by simp
      ultimately have "(written @ c) @ take (nat (N - int (bytes_received + length c))) (concat rest)
          = written @ take (nat (N - int bytes_received)) (concat chunks)"
        by simp
      with ih r False n(1) True show ?thesis
        by (simp add: download.simps [of "NInt N" bytes_received written "map Data chunks"])
    qed
  qed
qed

lemma save_payload_closed_stream:
  assumes "can_write w (local_path_of w device_ip file_name)"
  shows "save_payload w sock (map Data chunks) device_ip file_name (NInt N) s =
     (Inr (PStr (local_path_of w device_ip file_name)),
      sock_close sock
        (s\<lparr>files := (files s)(local_path_of w device_ip file_name \<mapsto>
                                  take (nat N) (concat chunks))\<rparr>))"
  using assms by (simp add: save_payload_def Let_def download_data)

lemmas video_defs =
  video_world_def video_header_def handle_file_download_def handle_file_download_try_def
  save_payload_def parse_header_def local_path_of_def sock_close_def read_header.simps
  download.simps run_defs

section \<open>C1: the entries of a broadcast\<close>




section \<open>C2: the shared timestamp of a synchronised start\<close>




section \<open>C3: a payload that ends early\<close>

text \<open>
  Claim C3 at a failing input. The header announces \<^verbatim>\<open>fileSize\<close> 10; the camera at port
  8081 sends 4 bytes of payload and closes the connection. \<^verbatim>\<open>send_command\<close> returns the
  local path, the value of a successful download, and the saved file has 4 bytes: the loop
  of lines 188-194 leaves at the closed stream (line 192) and nothing after it compares
  \<^verbatim>\<open>bytes_received\<close> with \<^verbatim>\<open>file_size\<close>. (\<open>save_payload_closed_stream\<close> above is the
  same for every size.)
\<close>

theorem truncated_download_returns_path:
  "parse_header video_world video_header = Inr (PStr ''clip.mp4'', NInt 10)
   \<and> fst (send_command video_world ''10.0.0.5'' 8081 ''GET_VIDEO'' None (Some ''abc123'')
          init_state)
      = PStr ''/home/user/Downloads/multiCam/10_0_0_5_clip.mp4''
   \<and> files (snd (send_command video_world ''10.0.0.5'' 8081 ''GET_VIDEO'' None (Some ''abc123'')
          init_state)) ''/home/user/Downloads/multiCam/10_0_0_5_clip.mp4''
      = Some [1, 2, 3, 4]"
  by (simp add: video_defs)

text \<open>The part of the claim that holds: when all 10 bytes arrive, the path is returned and
  the saved file has the 10 bytes.\<close>

lemma complete_download_saves_file:
  "fst (send_command video_world ''10.0.0.5'' 8082 ''GET_VIDEO'' None (Some ''abc123'')
          init_state)
      = PStr ''/home/user/Downloads/multiCam/10_0_0_5_clip.mp4''
   \<and> files (snd (send_command video_world ''10.0.0.5'' 8082 ''GET_VIDEO'' None (Some ''abc123'')
          init_state)) ''/home/user/Downloads/multiCam/10_0_0_5_clip.mp4''
      = Some [1, 2, 3, 4, 5, 6, 7, 8, 9, 10]"
  by (simp add: video_defs)

section \<open>C4: the peer closes before the response is JSON\<close>




section \<open>C5: the socket at the return of a device link\<close>

text \<open>
  Claim C5 at failing inputs. \<^verbatim>\<open>send_command\<close> returns with its socket still connected
  \<^item> when it returns the decoded response (lines 132 and 135 return before the
    \<^verbatim>\<open>sock.close()\<close> of line 137);
  \<^item> when the response does not decode (the \<^verbatim>\<open>except\<close> handler of lines 140-142 does
    not close);
  \<^item> when a file transfer ends inside the four bytes of the header length (the early
    return of line 153).
  The paths that do close the socket are the empty response (line 137) and the end of
  \<^verbatim>\<open>_handle_file_download\<close> (lines 201 and 206); the last two conjuncts show them.
\<close>

theorem send_command_leaves_socket_connected:
  "send_command lab_world ''10.0.0.5'' 8081 ''DEVICE_STATUS'' None None init_state
     = (PDict [(''timestamp'', PFloat 1000.5)],
        \<lparr>ticks = 1, socks = [Connected],
         outbox = [(''10.0.0.5'', 8081,
                    \<lparr>m_command = ''DEVICE_STATUS'', m_timestamp = 1000,
                     m_deviceId = ''controller'', m_fileId = None\<rparr>)],
         files = (\<lambda>p. None)\<rparr>)
   \<and> fst (send_command cut_world ''10.0.0.5'' 8080 ''DEVICE_STATUS'' None None init_state)
      = PBool False
   \<and> socks (snd (send_command cut_world ''10.0.0.5'' 8080 ''DEVICE_STATUS'' None None init_state))
      = [Connected]
   \<and> fst (send_command video_world ''10.0.0.5'' 8083 ''GET_VIDEO'' None (Some ''abc123'')
          init_state)
      = PBool False
   \<and> socks (snd (send_command video_world ''10.0.0.5'' 8083 ''GET_VIDEO'' None (Some ''abc123'')
          init_state))
      = [Connected]
   \<and> socks (snd (send_command silent_world ''10.0.0.5'' 8080 ''DEVICE_STATUS'' None None
          init_state))
      = [Closed]
   \<and> socks (snd (send_command video_world ''10.0.0.5'' 8081 ''GET_VIDEO'' None (Some ''abc123'')
          init_state))
      = [Closed]"
  by (simp add: bc_defs video_defs cut_world_def cut_answer_1_def cut_answer_2_def
      silent_world_def)

section \<open>C6: the file id of a \<^verbatim>\<open>STOP_RECORDING\<close> answer\<close>

text \<open>
  Claim C6, as the code has it. In a \<^verbatim>\<open>STOP_RECORDING\<close> dispatch to a device that answers
  with a JSON object: when the object has a \<^verbatim>\<open>fileId\<close> that is not empty, the device link
  returns that value instead of the object, and when it is a string the result mapping has
  it as the device's value; when the \<^verbatim>\<open>fileId\<close> is empty or absent, the device link
  returns the object as it is, and the result mapping, which keeps string values only, has
  no entry for the device.
\<close>

theorem stop_recording_file_id:
  assumes devs: "discovered_devices = pre @ (name, dev) # post"
    and dist: "distinct (map fst discovered_devices)"
    and peer: "\<forall>k m. m_command m = ''STOP_RECORDING'' \<longrightarrow>
        accepts (peer_at w k (ip dev) (port dev))
        \<and> takes (peer_at w k (ip dev) (port dev)) m
        \<and> fst (recv 4096 (reply (peer_at w k (ip dev) (port dev)) m)) = Inr data"
    and ne: "data \<noteq> []"
    and js: "loads w data = Some (PDict kvs)"
  shows "\<exists>r. fst (send_command_to_all w discovered_devices ''STOP_RECORDING'' timestamp sync_delay s)
            = Some r
     \<and> link_result w ''STOP_RECORDING'' timestamp sync_delay s pre dev =
         (case map_of kvs ''fileId'' of
            Some v \<Rightarrow> if truthy v then v else PDict kvs
          | None \<Rightarrow> PDict kvs)
     \<and> map_of r name =
         (case map_of kvs ''fileId'' of
            Some (PStr f) \<Rightarrow> if f = [] then None else Some (PStr f)
          | _ \<Rightarrow> None)"
proof -
  let ?ts = "fst (sync_timestamp_of w ''STOP_RECORDING'' timestamp sync_delay s)"
  let ?s1 = "snd (sync_timestamp_of w ''STOP_RECORDING'' timestamp sync_delay s)"
  let ?sp = "snd (run_threads w ''STOP_RECORDING'' ?ts pre ([], ?s1))"
  let ?msg = "fst (build_message w ''STOP_RECORDING'' (Some ?ts) None ?sp)"
  let ?p = "peer_at w (length (socks ?sp)) (ip dev) (port dev)"
  have cmd: "m_command ?msg = ''STOP_RECORDING''"
    by (simp add: build_message_fst)
  with peer have p: "accepts ?p" "takes ?p ?msg" "fst (recv 4096 (reply ?p ?msg)) = Inr data"
    by blast+
  have link: "link_result w ''STOP_RECORDING'' timestamp sync_delay s pre dev =
         (case map_of kvs ''fileId'' of
            Some v \<Rightarrow> if truthy v then v else PDict kvs
          | None \<Rightarrow> PDict kvs)"
    using send_command_stop_response [OF p ne js]
    by (simp add: link_result_def case_prod_beta)
  obtain r where r: "fst (send_command_to_all w discovered_devices ''STOP_RECORDING'' timestamp sync_delay s) = Some r"
    and e: "map_of r name =
        (if \<not> is_str (link_result w ''STOP_RECORDING'' timestamp sync_delay s pre dev)
         then None
         else Some (link_result w ''STOP_RECORDING'' timestamp sync_delay s pre dev))"
    using broadcast_entry [OF devs dist, of w "''STOP_RECORDING''" timestamp sync_delay s] by auto
  have "map_of r name =
         (case map_of kvs ''fileId'' of
            Some (PStr f) \<Rightarrow> if f = [] then None else Some (PStr f)
          | _ \<Rightarrow> None)"
    unfolding e link by (simp split: option.splits pyval.splits)
  with r link show ?thesis by blast
qed

text \<open>The spec's example: the camera at port 8081 answers \<^verbatim>\<open>{"fileId":"abc123"}\<close>, and
  its value in the result is the string \<^verbatim>\<open>abc123\<close>.\<close>

theorem stop_recording_file_id_witness:
  "lab_devices = [] @ (''cam1'', cam 8081) # [(''cam2'', cam 8082), (''cam3'', cam 8083)]
   \<and> distinct (map fst lab_devices)
   \<and> loads lab_world file_id_answer = Some (PDict [(''fileId'', PStr ''abc123'')])
   \<and> link_result lab_world ''STOP_RECORDING'' None 3 init_state [] (cam 8081) = PStr ''abc123''
   \<and> fst (send_command_to_all lab_world lab_devices ''STOP_RECORDING'' None 3 init_state)
       = Some [(''cam1'', PStr ''abc123'')]"
proof -
  let ?data = "file_id_answer"
  have a: "lab_devices = [] @ (''cam1'', cam 8081) # [(''cam2'', cam 8082), (''cam3'', cam 8083)]"
    and b: "distinct (map fst lab_devices)"
    by (simp_all add: lab_devices_def)
  have c: "\<forall>k m. m_command m = ''STOP_RECORDING'' \<longrightarrow>
        accepts (peer_at lab_world k (ip (cam 8081)) (port (cam 8081)))
        \<and> takes (peer_at lab_world k (ip (cam 8081)) (port (cam 8081))) m
        \<and> fst (recv 4096 (reply (peer_at lab_world k (ip (cam 8081)) (port (cam 8081))) m))
            = Inr ?data"
    by (simp add: lab_world_def mk_world_def responds_def cam_def file_id_answer_def ascii_def)
  have d: "?data \<noteq> []"
    by (simp add: file_id_answer_def ascii_def)
  have e: "loads lab_world ?data = Some (PDict [(''fileId'', PStr ''abc123'')])"
    by (simp add: lab_world_def mk_world_def)
  have f: "fst (send_command_to_all lab_world lab_devices ''STOP_RECORDING'' None 3 init_state)
       = Some [(''cam1'', PStr ''abc123'')]"
    by (simp add: bc_defs)
  from stop_recording_file_id [OF a b c d e, of None 3 init_state] a b e f show ?thesis
    by simp
qed

text \<open>The camera at port 8083 answers \<^verbatim>\<open>{"fileId":""}\<close>: its link returns the object,
  and the mapping returned by the broadcast is empty.\<close>

theorem stop_recording_raw_response_counterexample:
  "link_result lab_world ''STOP_RECORDING'' None 3 init_state [] (cam 8083)
     = PDict [(''fileId'', PStr [])]
   \<and> fst (send_command_to_all lab_world [(''cam3'', cam 8083)] ''STOP_RECORDING'' None 3 init_state)
     = Some []"
  by (simp add: link_result_def bc_defs)

section \<open>C7: a failing device link in a broadcast\<close>

text \<open>
  Claim C7, as the code has it. No exception of a device link leaves a broadcast: whatever
  the link raises (connection refused, timeout, decode error or anything else), it returns
  \<^verbatim>\<open>False\<close>, and the broadcast returns a mapping. For every command other than
  \<^verbatim>\<open>STOP_RECORDING\<close> the failed device's entry in that mapping is \<^verbatim>\<open>False\<close>, and every
  device's entry is the value its own link returned. For \<^verbatim>\<open>STOP_RECORDING\<close> the mapping
  keeps the string values only, so the failed device has no entry in it.
\<close>

theorem broadcast_isolates_failures:
  assumes devs: "discovered_devices = pre @ (name, dev) # post"
    and dist: "distinct (map fst discovered_devices)"
    and fails: "link_outcome w command timestamp sync_delay s pre dev = Inl e"
  shows "\<exists>r. fst (send_command_to_all w discovered_devices command timestamp sync_delay s) = Some r
     \<and> map_of r name = (if command = ''STOP_RECORDING'' then None else Some (PBool False))
     \<and> (\<forall>pre' name' dev' post'.
           discovered_devices = pre' @ (name', dev') # post' \<longrightarrow>
           map_of r name' =
             (if command = ''STOP_RECORDING''
                 \<and> \<not> is_str (link_result w command timestamp sync_delay s pre' dev')
              then None
              else Some (link_result w command timestamp sync_delay s pre' dev')))"
proof -
  obtain r where r: "fst (send_command_to_all w discovered_devices command timestamp sync_delay s) = Some r"
    using broadcast_entry [OF devs dist] by blast
  have each: "map_of r name' =
       (if command = ''STOP_RECORDING''
           \<and> \<not> is_str (link_result w command timestamp sync_delay s pre' dev')
        then None
        else Some (link_result w command timestamp sync_delay s pre' dev'))"
    if "discovered_devices = pre' @ (name', dev') # post'" for pre' name' dev' post'
    using broadcast_entry [OF that dist, of w command timestamp sync_delay s] r by auto
  have "link_result w command timestamp sync_delay s pre dev = PBool False"
    using fails by (simp add: link_result_outcome)
  with each [OF devs] have "map_of r name = (if command = ''STOP_RECORDING'' then None else Some (PBool False))"
    by simp
  with r each show ?thesis by blast
qed

text \<open>A status broadcast to the three cameras: the camera at port 8082 refuses the
  connection and is reported as \<^verbatim>\<open>False\<close>; the other two have their answers.\<close>

theorem broadcast_isolates_failures_witness:
  "lab_devices = [(''cam1'', cam 8081)] @ (''cam2'', cam 8082) # [(''cam3'', cam 8083)]
   \<and> distinct (map fst lab_devices)
   \<and> link_outcome lab_world ''DEVICE_STATUS'' None 3 init_state [(''cam1'', cam 8081)] (cam 8082)
       = Inl ConnectError
   \<and> fst (send_command_to_all lab_world lab_devices ''DEVICE_STATUS'' None 3 init_state)
     = Some [(''cam1'', PDict [(''timestamp'', PFloat 1000.5)]), (''cam2'', PBool False),
             (''cam3'', PDict [(''timestamp'', PFloat 1000.5)])]"
proof -
  have a: "lab_devices = [(''cam1'', cam 8081)] @ (''cam2'', cam 8082) # [(''cam3'', cam 8083)]"
    and b: "distinct (map fst lab_devices)"
    by (simp_all add: lab_devices_def)
  have c: "link_outcome lab_world ''DEVICE_STATUS'' None 3 init_state [(''cam1'', cam 8081)] (cam 8082)
       = Inl ConnectError"
    by (simp add: link_outcome_def bc_defs)
  have d: "fst (send_command_to_all lab_world lab_devices ''DEVICE_STATUS'' None 3 init_state)
     = Some [(''cam1'', PDict [(''timestamp'', PFloat 1000.5)]), (''cam2'', PBool False),
             (''cam3'', PDict [(''timestamp'', PFloat 1000.5)])]"
    by (simp add: bc_defs)
  from broadcast_isolates_failures [OF a b c] a b c d show ?thesis
    by simp
qed

text \<open>A \<^verbatim>\<open>STOP_RECORDING\<close> broadcast to the first two cameras: the link of the camera at
  port 8082 returns \<^verbatim>\<open>False\<close>, and the returned mapping has no entry for that camera.\<close>

theorem broadcast_stop_drops_failure_counterexample:
  "link_result lab_world ''STOP_RECORDING'' None 3 init_state [(''cam1'', cam 8081)] (cam 8082)
     = PBool False
   \<and> fst (send_command_to_all lab_world [(''cam1'', cam 8081), (''cam2'', cam 8082)]
        ''STOP_RECORDING'' None 3 init_state)
     = Some [(''cam1'', PStr ''abc123'')]"
  by (simp add: link_result_def bc_defs)

section \<open>C8: the thresholds of the synchronisation summary\<close>




section \<open>C9: the clock estimate of one probe\<close>



section \<open>C10: a zero timestamp and an empty file id count as absent\<close>

text \<open>
  Claim C10. A call of \<^verbatim>\<open>send_command\<close> whose request reaches the peer sends exactly one
  request. Its \<^verbatim>\<open>timestamp\<close> field is the caller's timestamp only when that is present
  and not zero; with the timestamp 0 (as with none) it is the reading of the clock at the
  call. Its \<^verbatim>\<open>fileId\<close> field is there only for a file id that is present and not empty;
  the file id \<^verbatim>\<open>""\<close> is left out.
\<close>

theorem send_command_falsy_arguments:
  assumes "accepts (peer_at w (length (socks s)) device_ip device_port)"
    and "takes (peer_at w (length (socks s)) device_ip device_port)
           (fst (build_message w command timestamp file_id s))"
  shows "outbox (snd (send_command w device_ip device_port command timestamp file_id s)) =
           outbox s @
           [(device_ip, device_port,
             \<lparr>m_command = command,
              m_timestamp = (case timestamp of
                               None \<Rightarrow> clock w (ticks s)
                             | Some t \<Rightarrow> if t = 0 then clock w (ticks s) else t),
              m_deviceId = ''controller'',
              m_fileId = (case file_id of
                            None \<Rightarrow> None
                          | Some f \<Rightarrow> if f = [] then None else Some f)\<rparr>)]"
  using assms
  by (simp add: send_command_outbox build_message_fst split: option.splits)

text \<open>At the timestamp 0 and the file id \<^verbatim>\<open>""\<close>: the request carries the clock's 1000 and
  no file id.\<close>

theorem send_command_falsy_arguments_witness:
  "accepts (peer_at silent_world (length (socks init_state)) ''10.0.0.5'' 8080)
   \<and> outbox (snd (send_command silent_world ''10.0.0.5'' 8080 ''DEVICE_STATUS''
         (Some 0) (Some []) init_state))
     = [(''10.0.0.5'', 8080,
         \<lparr>m_command = ''DEVICE_STATUS'', m_timestamp = 1000, m_deviceId = ''controller'',
          m_fileId = None\<rparr>)]"
proof -
  have a: "accepts (peer_at silent_world (length (socks init_state)) ''10.0.0.5'' 8080)"
    by (simp add: silent_world_def)
  have t: "takes (peer_at silent_world (length (socks init_state)) ''10.0.0.5'' 8080)
      (fst (build_message silent_world ''DEVICE_STATUS'' (Some 0) (Some []) init_state))"
    by (simp add: silent_world_def)
  from send_command_falsy_arguments [OF a t] a show ?thesis
    by (simp add: init_state_def silent_world_def)
qed

end
